theory Spec2Isabelle
  imports Complex_Main "HOL-Library.Word" "HOL-Library.Sublist"
begin

section \<open>vidcom: batch video compressor\<close>

text \<open>
  A shallow embedding of \<^verbatim>\<open>vidcom2.go\<close>. Go strings are byte sequences and are modelled as
  \<open>string\<close>; \<^verbatim>\<open>int64\<close> is \<open>64 word\<close>, read with \<open>sint\<close> and compared with the signed
  orders; \<^verbatim>\<open>int\<close> (the directory counter) is \<open>int\<close>.
\<close>

type_synonym int64 = "64 word"

subsection \<open>Library: \<^verbatim>\<open>strings\<close>\<close>

text \<open>
  \<^verbatim>\<open>strings.ToLower\<close> is modelled on the letters \<^verbatim>\<open>A\<close> to \<^verbatim>\<open>Z\<close>; every other byte is kept.
  Go also maps letters beyond ASCII, but none of them to a byte of the constants the program
  compares with (\<^verbatim>\<open>.mp4\<close>, \<^verbatim>\<open>.mov\<close>, \<^verbatim>\<open>completed\<close>).
\<close>

definition toLowerByte :: "char \<Rightarrow> char" where
  "toLowerByte c =
     (let n = (of_char c :: nat) in if 65 \<le> n \<and> n \<le> 90 then char_of (n + 32) else c)"

definition ToLower :: "string \<Rightarrow> string" where
  "ToLower s = map toLowerByte s"

fun Contains :: "string \<Rightarrow> string \<Rightarrow> bool" where
  "Contains [] substr = (substr = [])"
| "Contains (c # s) substr = (prefix substr (c # s) \<or> Contains s substr)"

text \<open>\<^verbatim>\<open>strings.Join(elem, "/")\<close>.\<close>

fun joinSep :: "string list \<Rightarrow> string" where
  "joinSep [] = []"
| "joinSep [e] = e"
| "joinSep (e # es) = e @ CHR ''/'' # joinSep es"

subsection \<open>Library: \<^verbatim>\<open>path/filepath\<close> (separator \<^verbatim>\<open>/\<close>)\<close>

text \<open>
  \<^verbatim>\<open>Ext\<close> scans back from the end of the path to the first dot, and stops at a separator:
  \<^verbatim>\<open>for i := len(path) - 1; i >= 0 && !os.IsPathSeparator(path[i]); i-- {
      if path[i] == '.' { return path[i:] } }
  return ""\<close>
  The second argument of \<open>Ext_from\<close> is \<open>i + 1\<close>.
\<close>

fun Ext_from :: "string \<Rightarrow> nat \<Rightarrow> string" where
  "Ext_from path 0 = []"
| "Ext_from path (Suc i) =
     (if path ! i = CHR ''/'' then []
      else if path ! i = CHR ''.'' then drop i path
      else Ext_from path i)"

definition Ext :: "string \<Rightarrow> string" where
  "Ext path = Ext_from path (length path)"

text \<open>
  \<^verbatim>\<open>Split\<close> cuts after the last separator:
  \<^verbatim>\<open>i := len(path) - 1
  for i >= 0 && !os.IsPathSeparator(path[i]) { i-- }
  return path[:i+1], path[i+1:]\<close>
\<close>

fun Split_from :: "string \<Rightarrow> nat \<Rightarrow> string \<times> string" where
  "Split_from path 0 = ([], path)"
| "Split_from path (Suc i) =
     (if path ! i = CHR ''/'' then (take (Suc i) path, drop (Suc i) path)
      else Split_from path i)"

definition Split :: "string \<Rightarrow> string \<times> string" where
  "Split path = Split_from path (length path)"

text \<open>
  \<^verbatim>\<open>Clean\<close>, on the list of the path's elements: empty elements and \<^verbatim>\<open>.\<close> are dropped, an
  inner \<^verbatim>\<open>..\<close> removes the element before it, a \<^verbatim>\<open>..\<close> at the start of a rooted path is dropped
  and at the start of a relative path is kept. The third argument of \<open>cleanElems\<close> is the
  output so far, last element first.
\<close>

fun elems_acc :: "string \<Rightarrow> string \<Rightarrow> string list" where
  "elems_acc [] cur = [rev cur]"
| "elems_acc (c # s) cur =
     (if c = CHR ''/'' then rev cur # elems_acc s [] else elems_acc s (c # cur))"

definition elems :: "string \<Rightarrow> string list" where
  "elems path = elems_acc path []"

fun cleanElems :: "bool \<Rightarrow> string list \<Rightarrow> string list \<Rightarrow> string list" where
  "cleanElems rooted [] out = rev out"
| "cleanElems rooted (e # es) out =
     (if e = [] \<or> e = ''.'' then cleanElems rooted es out
      else if e = ''..'' then
        (case out of
           [] \<Rightarrow> if rooted then cleanElems rooted es [] else cleanElems rooted es [''..'']
         | d # ds \<Rightarrow>
             if d = ''..'' then cleanElems rooted es (''..'' # d # ds)
             else cleanElems rooted es ds)
      else cleanElems rooted es (e # out))"

definition Clean :: "string \<Rightarrow> string" where
  "Clean path =
     (if path = [] then ''.''
      else
        let rooted = (hd path = CHR ''/'');
            out = cleanElems rooted (elems path) []
        in if rooted then CHR ''/'' # joinSep out
           else if out = [] then ''.''
           else joinSep out)"

text \<open>
  \<^verbatim>\<open>Join\<close> skips leading empty elements, joins the rest with the separator and cleans the
  result; it is empty when every element is.
\<close>

fun Join :: "string list \<Rightarrow> string" where
  "Join [] = []"
| "Join (e # es) = (if e = [] then Join es else Clean (joinSep (e # es)))"

subsection \<open>File classifier\<close>

definition isVideoFile :: "string \<Rightarrow> bool" where
  "isVideoFile filePath =
     (let fileExtension = ToLower (Ext filePath)
      in fileExtension = ''.mp4'' \<or> fileExtension = ''.mov'')"

definition isCompressedFile :: "string \<Rightarrow> bool" where
  "isCompressedFile filePath = Contains (ToLower filePath) ''completed''"

subsection \<open>\<^verbatim>\<open>float64\<close>\<close>

text \<open>
  The program computes its megabyte and percentage figures in \<^verbatim>\<open>float64\<close>. The model keeps
  the finite values exact (rounding is left out) and has the special values that IEEE 754
  division produces: a non-zero value divided by zero is an infinity, zero divided by zero is
  not a number. Zero has no sign here; every zero the program divides by comes from an
  integer conversion and is \<^verbatim>\<open>+0\<close>.
\<close>

datatype float64 = Finite rat | PosInf | NegInf | NaN

definition float64 :: "int64 \<Rightarrow> float64" where
  "float64 n = Finite (of_int (sint n))"

fun fdiv :: "float64 \<Rightarrow> float64 \<Rightarrow> float64" where
  "fdiv (Finite a) (Finite b) =
     (if b = 0 then (if a = 0 then NaN else if 0 < a then PosInf else NegInf)
      else Finite (a / b))"
| "fdiv (Finite a) PosInf = Finite 0"
| "fdiv (Finite a) NegInf = Finite 0"
| "fdiv PosInf (Finite b) = (if 0 \<le> b then PosInf else NegInf)"
| "fdiv NegInf (Finite b) = (if 0 \<le> b then NegInf else PosInf)"
| "fdiv _ _ = NaN"

fun fmul :: "float64 \<Rightarrow> float64 \<Rightarrow> float64" where
  "fmul (Finite a) (Finite b) = Finite (a * b)"
| "fmul (Finite a) PosInf = (if a = 0 then NaN else if 0 < a then PosInf else NegInf)"
| "fmul (Finite a) NegInf = (if a = 0 then NaN else if 0 < a then NegInf else PosInf)"
| "fmul PosInf (Finite b) = (if b = 0 then NaN else if 0 < b then PosInf else NegInf)"
| "fmul NegInf (Finite b) = (if b = 0 then NaN else if 0 < b then NegInf else PosInf)"
| "fmul PosInf PosInf = PosInf"
| "fmul PosInf NegInf = NegInf"
| "fmul NegInf PosInf = NegInf"
| "fmul NegInf NegInf = PosInf"
| "fmul _ _ = NaN"

subsection \<open>The world the program runs in\<close>

text \<open>
  \<open>disk\<close> is what \<^verbatim>\<open>os.Stat\<close> reports for each path: an error or the file's information.
  \<open>statusLog\<close> holds the messages of the status logger (console and report file),
  \<open>ffmpegLog\<close> the lines of the FFmpeg logger (report file only), \<open>stdout\<close> what is printed
  directly, and \<open>started\<close> the argument lists of the subprocesses started so far.
\<close>

datatype errno = ENOENT | EOTHER

record fileInfo =
  IsDir :: bool
  Size :: int64

datatype status_msg =
    InfoFound int int
  | InfoStarting string
  | WarnAlreadyExists string
  | WarnOriginalSize errno
  | WarnOutputPipe
  | WarnStartingFFmpeg
  | WarnReadingOutput
  | WarnWaiting
  | WarnCompressedSize errno
  | WarnLarger string string float64 float64
  | WarnSameSize string string
  | Compressed string string float64 float64 float64
  | Separator
  | TotalSaved float64 float64

datatype stdout_msg = WalkError

record world =
  disk :: "string \<Rightarrow> errno + fileInfo"
  statusLog :: "status_msg list"
  ffmpegLog :: "string list"
  stdout :: "stdout_msg list"
  started :: "string list list"

text \<open>
  What the operating system and the FFmpeg subprocess do during one job, as far as the
  program can tell: whether \<^verbatim>\<open>os.Mkdir\<close>, \<^verbatim>\<open>cmd.StderrPipe\<close>, \<^verbatim>\<open>cmd.Start\<close>, the scanner,
  \<^verbatim>\<open>cmd.Wait\<close> and \<^verbatim>\<open>os.Remove\<close> fail, the size that the system reports for a directory
  made by \<^verbatim>\<open>os.Mkdir\<close>, the lines the scanner reads from the subprocess, and the size of the
  file the subprocess leaves at its output path (\<open>None\<close>: it leaves none). The failures are
  independent of each other and of the disk, so every combination that the program could
  meet is covered.
\<close>

record job =
  mkdir_fails :: bool
  dir_size :: int64
  pipe_fails :: bool
  start_fails :: bool
  stderr_lines :: "string list"
  scan_fails :: bool
  wait_fails :: bool
  written :: "int64 option"
  remove_fails :: bool

definition Stat :: "world \<Rightarrow> string \<Rightarrow> errno + fileInfo" where
  "Stat w name = disk w name"

definition Mkdir :: "job \<Rightarrow> string \<Rightarrow> world \<Rightarrow> world" where
  "Mkdir env name w =
     (if mkdir_fails env then w
      else w\<lparr>disk := (disk w)(name := Inr \<lparr>IsDir = True, Size = dir_size env\<rparr>)\<rparr>)"

definition Remove :: "job \<Rightarrow> string \<Rightarrow> world \<Rightarrow> world" where
  "Remove env name w =
     (if remove_fails env then w else w\<lparr>disk := (disk w)(name := Inl ENOENT)\<rparr>)"

definition logStatus :: "status_msg \<Rightarrow> world \<Rightarrow> world" where
  "logStatus m w = w\<lparr>statusLog := statusLog w @ [m]\<rparr>"

text \<open>
  The subprocess between \<^verbatim>\<open>cmd.Start\<close> and the end of its output: it is recorded as started,
  writes its output file, and the scanner loop copies its lines to the FFmpeg logger.
\<close>

definition runSubprocess :: "job \<Rightarrow> string list \<Rightarrow> string \<Rightarrow> world \<Rightarrow> world" where
  "runSubprocess env args output w =
     (let w' = w\<lparr>started := started w @ [args]\<rparr>;
          w'' = (case written env of
                   None \<Rightarrow> w'
                 | Some n \<Rightarrow> w'\<lparr>disk := (disk w')(output := Inr \<lparr>IsDir = False, Size = n\<rparr>)\<rparr>)
      in w''\<lparr>ffmpegLog := ffmpegLog w'' @ stderr_lines env\<rparr>)"

subsection \<open>\<^verbatim>\<open>processVideo\<close>\<close>

definition processVideo :: "job \<Rightarrow> string \<Rightarrow> world \<Rightarrow> (int64 \<times> int64) \<times> world" where
  "processVideo env filePath w0 =
     (let w1 = logStatus (InfoStarting filePath) w0;
          (fileDir, fileName) = Split filePath;
          completedDir = Join [fileDir, ''Completed''];
          w2 = (case Stat w1 completedDir of
                  Inl err \<Rightarrow> if err = ENOENT then Mkdir env completedDir w1 else w1
                | Inr _ \<Rightarrow> w1);
          compressedFilePath = Join [completedDir, fileName]
      in case Stat w2 compressedFilePath of
           Inr _ \<Rightarrow> ((0, 0), logStatus (WarnAlreadyExists fileName) w2)
         | Inl _ \<Rightarrow>
        (case Stat w2 filePath of
           Inl err \<Rightarrow> ((0, 0), logStatus (WarnOriginalSize err) w2)
         | Inr originalFileInfo \<Rightarrow>
        (let originalFileSize = Size originalFileInfo
         in if pipe_fails env then ((originalFileSize, 0), logStatus WarnOutputPipe w2)
            else if start_fails env then ((originalFileSize, 0), logStatus WarnStartingFFmpeg w2)
            else
              let w3 = runSubprocess env
                         [''ffmpeg'', ''-i'', filePath, ''-c:v'', ''hevc_videotoolbox'',
                          ''-c:a'', ''copy'', compressedFilePath]
                         compressedFilePath w2;
                  w4 = (if scan_fails env then logStatus WarnReadingOutput w3 else w3)
              in if wait_fails env then ((originalFileSize, 0), logStatus WarnWaiting w4)
                 else
                   (case Stat w4 compressedFilePath of
                      Inl err \<Rightarrow> ((originalFileSize, 0), logStatus (WarnCompressedSize err) w4)
                    | Inr compressedFileInfo \<Rightarrow>
                   (let compressedFileSize = Size compressedFileInfo
                    in if originalFileSize \<le>s compressedFileSize then
                         let w5 = Remove env compressedFilePath w4;
                             w6 = (if originalFileSize <s compressedFileSize then
                                     logStatus
                                       (WarnLarger compressedFilePath filePath
                                          (fdiv (fdiv (float64 (compressedFileSize - originalFileSize))
                                                   (Finite 1024)) (Finite 1024))
                                          (fmul (fdiv (float64 (compressedFileSize - originalFileSize))
                                                   (float64 originalFileSize)) (Finite 100)))
                                       w5
                                   else logStatus (WarnSameSize compressedFilePath filePath) w5)
                         in ((originalFileSize, originalFileSize), w6)
                       else
                         ((originalFileSize, compressedFileSize),
                          logStatus
                            (Compressed filePath compressedFilePath
                               (fdiv (fdiv (float64 originalFileSize) (Finite 1024)) (Finite 1024))
                               (fdiv (fdiv (float64 compressedFileSize) (Finite 1024)) (Finite 1024))
                               (fmul (fdiv (float64 (originalFileSize - compressedFileSize))
                                        (float64 originalFileSize)) (Finite 100)))
                            w4))))))"

subsection \<open>\<^verbatim>\<open>processVideos\<close>\<close>

text \<open>
  The loop over the video files; \<open>env\<close> gives the behaviour of system and subprocess during the
  job of each file. The totals are \<^verbatim>\<open>int64\<close> and wrap around.
\<close>

fun processVideos_loop ::
  "(string \<Rightarrow> job) \<Rightarrow> string list \<Rightarrow> int64 \<times> int64 \<Rightarrow> world \<Rightarrow> (int64 \<times> int64) \<times> world" where
  "processVideos_loop env [] totals w = (totals, w)"
| "processVideos_loop env (filePath # rest) (totalOriginalSize, totalCompressedSize) w =
     (let ((originalSize, compressedSize), w') = processVideo (env filePath) filePath w
      in processVideos_loop env rest
           (totalOriginalSize + originalSize, totalCompressedSize + compressedSize) w')"

definition processVideos ::
  "(string \<Rightarrow> job) \<Rightarrow> string list \<Rightarrow> world \<Rightarrow> (int64 \<times> int64) \<times> world" where
  "processVideos env videoFiles w = processVideos_loop env videoFiles (0, 0) w"

subsection \<open>\<^verbatim>\<open>findVideoFiles\<close>\<close>

text \<open>
  The directory tree that \<^verbatim>\<open>filepath.Walk\<close> traverses. The entries of a directory are listed in
  the order of the walk (by name). \<open>Unreadable\<close> is an entry that cannot be examined or a
  directory that cannot be listed: the walk function is called with an error for it.
\<close>

datatype node = File | Dir "(string \<times> node) list" | Unreadable

text \<open>
  The function literal passed to \<^verbatim>\<open>filepath.Walk\<close>, on the pair of \<^verbatim>\<open>files\<close> and
  \<^verbatim>\<open>dirCount\<close> that it updates. The first component of the result says whether it returned an
  error.
\<close>

definition walkFn :: "string \<Rightarrow> bool \<Rightarrow> bool \<Rightarrow> string list \<times> int \<Rightarrow> bool \<times> string list \<times> int" where
  "walkFn path isDir err st =
     (case st of (files, dirCount) \<Rightarrow>
        if err then (True, files, dirCount)
        else if isDir then (False, files, dirCount + 1)
        else if isVideoFile path then (False, files @ [path], dirCount)
        else (False, files, dirCount))"

text \<open>\<^verbatim>\<open>filepath.Walk\<close>: it stops at the first error that the walk function returns.\<close>

fun walk :: "string \<Rightarrow> node \<Rightarrow> string list \<times> int \<Rightarrow> bool \<times> string list \<times> int"
  and walkEntries ::
    "string \<Rightarrow> (string \<times> node) list \<Rightarrow> string list \<times> int \<Rightarrow> bool \<times> string list \<times> int" where
  "walk path File st = walkFn path False False st"
| "walk path Unreadable st = walkFn path False True st"
| "walk path (Dir entries) st =
     (case walkFn path True False st of
        (True, st') \<Rightarrow> (True, st')
      | (False, st') \<Rightarrow> walkEntries path entries st')"
| "walkEntries path [] st = (False, st)"
| "walkEntries path (entry # entries) st =
     (case walk (Join [path, fst entry]) (snd entry) st of
        (True, st') \<Rightarrow> (True, st')
      | (False, st') \<Rightarrow> walkEntries path entries st')"

definition findVideoFiles :: "node \<Rightarrow> world \<Rightarrow> (string list \<times> int) \<times> world" where
  "findVideoFiles tree w =
     (case walk ''.'' tree ([], 0) of
        (err, files, dirCount) \<Rightarrow>
          ((files, dirCount - 1), if err then w\<lparr>stdout := stdout w @ [WalkError]\<rparr> else w))"

subsection \<open>\<^verbatim>\<open>main\<close>\<close>

text \<open>
  \<open>None\<close> is the fatal exit when the report file cannot be opened. The tree is the directory
  as the walk finds it at startup; the world is what the later calls of \<^verbatim>\<open>os.Stat\<close> see. The
  signal handler is not part of the model.
\<close>

definition main :: "bool \<Rightarrow> node \<Rightarrow> (string \<Rightarrow> job) \<Rightarrow> world \<Rightarrow> world option" where
  "main logFileOpens tree env w0 =
     (if \<not> logFileOpens then None
      else
        let ((videoFiles, dirCount), w1) = findVideoFiles tree w0;
            w2 = logStatus (InfoFound (int (length videoFiles)) dirCount) w1;
            ((totalOriginalSize, totalCompressedSize), w3) = processVideos env videoFiles w2;
            totalSpaceSaved = totalOriginalSize - totalCompressedSize;
            percentageSaved =
              fmul (fdiv (float64 totalSpaceSaved) (float64 totalOriginalSize)) (Finite 100);
            w4 = logStatus Separator w3;
            w5 = logStatus
                   (TotalSaved (fdiv (fdiv (float64 totalSpaceSaved) (Finite 1024)) (Finite 1024))
                      percentageSaved) w4
        in Some (logStatus Separator w5))"

subsection \<open>Stages of a job\<close>

text \<open>
  Names for the intermediate values of \<^verbatim>\<open>processVideo\<close>: the two paths it computes, the world
  at the moment it checks the output path (after the marker directory step), and the world
  after the subprocess has run and its output has been read.
\<close>

definition completedDirOf :: "string \<Rightarrow> string" where
  "completedDirOf filePath = Join [fst (Split filePath), ''Completed'']"

definition compressedFilePathOf :: "string \<Rightarrow> string" where
  "compressedFilePathOf filePath = Join [completedDirOf filePath, snd (Split filePath)]"

definition jobSetup :: "job \<Rightarrow> string \<Rightarrow> world \<Rightarrow> world" where
  "jobSetup env filePath w0 =
     (let w1 = logStatus (InfoStarting filePath) w0
      in case Stat w1 (completedDirOf filePath) of
           Inl err \<Rightarrow> if err = ENOENT then Mkdir env (completedDirOf filePath) w1 else w1
         | Inr _ \<Rightarrow> w1)"

definition afterSubprocess :: "job \<Rightarrow> string \<Rightarrow> world \<Rightarrow> world" where
  "afterSubprocess env filePath w0 =
     (let w3 = runSubprocess env
                 [''ffmpeg'', ''-i'', filePath, ''-c:v'', ''hevc_videotoolbox'',
                  ''-c:a'', ''copy'', compressedFilePathOf filePath]
                 (compressedFilePathOf filePath) (jobSetup env filePath w0)
      in if scan_fails env then logStatus WarnReadingOutput w3 else w3)"

definition statSize :: "world \<Rightarrow> string \<Rightarrow> int64 option" where
  "statSize w name = (case Stat w name of Inl _ \<Rightarrow> None | Inr info \<Rightarrow> Some (Size info))"

text \<open>
  The job passes the output path check, measures the original, runs the subprocess to a
  successful exit and can measure the output: \<open>originalSize\<close> and \<open>producedSize\<close> are the
  two sizes that are compared.
\<close>

definition runsToOutput :: "job \<Rightarrow> string \<Rightarrow> world \<Rightarrow> int64 \<Rightarrow> int64 \<Rightarrow> bool" where
  "runsToOutput env filePath w originalSize producedSize \<longleftrightarrow>
     statSize (jobSetup env filePath w) (compressedFilePathOf filePath) = None \<and>
     statSize (jobSetup env filePath w) filePath = Some originalSize \<and>
     \<not> pipe_fails env \<and> \<not> start_fails env \<and> \<not> wait_fails env \<and>
     statSize (afterSubprocess env filePath w) (compressedFilePathOf filePath) = Some producedSize"

text \<open>
  The decision of a job as the specification names it, read off the last message that the
  job writes to the status log.
\<close>

datatype decision = Kept | DiscardedLarger | DiscardedEqual | SkippedAlreadyExists | Failed

fun decisionOf :: "status_msg \<Rightarrow> decision option" where
  "decisionOf (Compressed _ _ _ _ _) = Some Kept"
| "decisionOf (WarnLarger _ _ _ _) = Some DiscardedLarger"
| "decisionOf (WarnSameSize _ _) = Some DiscardedEqual"
| "decisionOf (WarnAlreadyExists _) = Some SkippedAlreadyExists"
| "decisionOf (WarnOriginalSize _) = Some Failed"
| "decisionOf WarnOutputPipe = Some Failed"
| "decisionOf WarnStartingFFmpeg = Some Failed"
| "decisionOf WarnWaiting = Some Failed"
| "decisionOf (WarnCompressedSize _) = Some Failed"
| "decisionOf _ = None"

definition outcome :: "(int64 \<times> int64) \<times> world \<Rightarrow> decision option" where
  "outcome r = decisionOf (last (statusLog (snd r)))"

text \<open>The pairs that the successive calls of \<^verbatim>\<open>processVideo\<close> return in the loop.\<close>

fun jobResults :: "(string \<Rightarrow> job) \<Rightarrow> string list \<Rightarrow> world \<Rightarrow> (int64 \<times> int64) list" where
  "jobResults env [] w = []"
| "jobResults env (filePath # rest) w =
     (let (r, w') = processVideo (env filePath) filePath w in r # jobResults env rest w')"

text \<open>Every size that the system reports or the subprocess writes is non-negative.\<close>

definition sizesNonNegative :: "world \<Rightarrow> bool" where
  "sizesNonNegative w \<longleftrightarrow> (\<forall>name. case disk w name of Inl _ \<Rightarrow> True | Inr info \<Rightarrow> 0 \<le>s Size info)"

definition jobNonNegative :: "job \<Rightarrow> bool" where
  "jobNonNegative env \<longleftrightarrow>
     0 \<le>s dir_size env \<and> (case written env of None \<Rightarrow> True | Some n \<Rightarrow> 0 \<le>s n)"

subsection \<open>Example inputs\<close>

text \<open>
  A world whose only entries are the listed ones, and a job in which nothing fails and the
  subprocess leaves the given output.
\<close>

definition regular :: "int64 \<Rightarrow> fileInfo" where
  "regular n = \<lparr>IsDir = False, Size = n\<rparr>"

definition directory :: fileInfo where
  "directory = \<lparr>IsDir = True, Size = 64\<rparr>"

definition diskOf :: "(string \<times> fileInfo) list \<Rightarrow> string \<Rightarrow> errno + fileInfo" where
  "diskOf entries name =
     (case map_of entries name of None \<Rightarrow> Inl ENOENT | Some info \<Rightarrow> Inr info)"

definition worldOf :: "(string \<times> fileInfo) list \<Rightarrow> world" where
  "worldOf entries =
     \<lparr>disk = diskOf entries, statusLog = [], ffmpegLog = [], stdout = [], started = []\<rparr>"

definition okJob :: "int64 option \<Rightarrow> job" where
  "okJob output =
     \<lparr>mkdir_fails = False, dir_size = 64, pipe_fails = False, start_fails = False,
      stderr_lines = [], scan_fails = False, wait_fails = False, written = output,
      remove_fails = False\<rparr>"

section \<open>Properties\<close>

subsection \<open>The file classifier\<close>

lemma of_char_less_256: "(of_char c :: nat) < 256"
proof -
  have "(of_char c :: nat) mod 256 < 256" by simp
  then show ?thesis by (simp only: of_char_mod_256)
qed

lemma toLowerByte_eq_iff:
  "toLowerByte c = d \<longleftrightarrow>
     (if 65 \<le> (of_char c :: nat) \<and> (of_char c :: nat) \<le> 90 then of_char c + 32 else of_char c)
       = (of_char d :: nat)"
  using of_char_less_256[of c]
  by (auto simp: toLowerByte_def Let_def char_of_eq_iff take_bit_eq_mod)

lemma of_char_eq_nat: "(of_char c :: nat) = of_char d \<longleftrightarrow> c = d"
  by simp

lemma toLowerByte_letter:
  assumes "toLowerByte c = d" and "d \<in> set ''mp4ov''"
  shows "c \<noteq> CHR ''/'' \<and> c \<noteq> CHR ''.''"
  using assms by (auto simp: toLowerByte_eq_iff split: if_splits)

lemma toLowerByte_dot: "toLowerByte c = CHR ''.'' \<longleftrightarrow> c = CHR ''.''"
  using of_char_eq_nat[of c "CHR ''.''"]
  by (auto simp add: toLowerByte_eq_iff simp del: of_char_eq_iff)

lemma Ext_from_suffix: "i \<le> length path \<Longrightarrow> \<exists>stem. path = stem @ Ext_from path i"
proof (induction i)
  case 0
  then show ?case by simp
next
  case (Suc i)
  have "path = take i path @ drop i path" by simp
  with Suc show ?case by (auto simp del: append_take_drop_id)
qed

lemma Ext_suffix: "\<exists>stem. path = stem @ Ext path"
  unfolding Ext_def by (rule Ext_from_suffix) simp

lemma Ext_from_append:
  assumes "CHR ''/'' \<notin> set r" "CHR ''.'' \<notin> set r" "k \<le> length r"
  shows "Ext_from (stem @ CHR ''.'' # r) (Suc (length stem + k)) = CHR ''.'' # r"
  using assms(3)
proof (induction k)
  case 0
  then show ?case by (simp add: nth_append)
next
  case (Suc k)
  then have "r ! k \<in> set r" by simp
  with assms have "r ! k \<noteq> CHR ''/''" "r ! k \<noteq> CHR ''.''" by auto
  with Suc show ?case by (simp add: nth_append)
qed

lemma Ext_append:
  assumes "CHR ''/'' \<notin> set r" "CHR ''.'' \<notin> set r"
  shows "Ext (stem @ CHR ''.'' # r) = CHR ''.'' # r"
  using Ext_from_append[OF assms, of "length r" stem] by (simp add: Ext_def)

lemma ToLower_ext_shape:
  assumes "ToLower e = ''.mp4'' \<or> ToLower e = ''.mov''"
  shows "\<exists>r. e = CHR ''.'' # r \<and> CHR ''/'' \<notin> set r \<and> CHR ''.'' \<notin> set r"
proof -
  from assms obtain c0 c1 c2 c3 where e: "e = [c0, c1, c2, c3]"
    by (auto simp: ToLower_def map_eq_Cons_conv)
  with assms have "c0 = CHR ''.''" by (auto simp: ToLower_def toLowerByte_dot)
  moreover from assms e have "\<forall>c \<in> {c1, c2, c3}. toLowerByte c \<in> set ''mp4ov''"
    by (auto simp: ToLower_def)
  then have "\<forall>c \<in> {c1, c2, c3}. c \<noteq> CHR ''/'' \<and> c \<noteq> CHR ''.''"
    using toLowerByte_letter by blast
  ultimately show ?thesis using e by auto
qed

text \<open>
  C9. \<^verbatim>\<open>isVideoFile\<close> is true exactly of the paths that end in \<^verbatim>\<open>.mp4\<close> or \<^verbatim>\<open>.mov\<close> in any
  mix of upper and lower case: the extension that \<^verbatim>\<open>filepath.Ext\<close> finds is then that ending.
  The classifier is a function of the path alone; it reads and changes nothing else.
\<close>

theorem isVideoFile_iff:
  "isVideoFile filePath \<longleftrightarrow>
     (\<exists>stem e. filePath = stem @ e \<and> (ToLower e = ''.mp4'' \<or> ToLower e = ''.mov''))"
proof
  assume "isVideoFile filePath"
  then have "ToLower (Ext filePath) = ''.mp4'' \<or> ToLower (Ext filePath) = ''.mov''"
    by (simp add: isVideoFile_def Let_def)
  with Ext_suffix[of filePath]
  show "\<exists>stem e. filePath = stem @ e \<and> (ToLower e = ''.mp4'' \<or> ToLower e = ''.mov'')"
    by blast
next
  assume "\<exists>stem e. filePath = stem @ e \<and> (ToLower e = ''.mp4'' \<or> ToLower e = ''.mov'')"
  then obtain stem e where p: "filePath = stem @ e"
    and e: "ToLower e = ''.mp4'' \<or> ToLower e = ''.mov''" by blast
  from ToLower_ext_shape[OF e] obtain r where "e = CHR ''.'' # r"
    "CHR ''/'' \<notin> set r" "CHR ''.'' \<notin> set r" by blast
  then have "Ext filePath = e" using p Ext_append by simp
  with e show "isVideoFile filePath" by (simp add: isVideoFile_def Let_def)
qed

text \<open>An instance: a path with a mixed-case extension, and one whose dot is in a directory name.\<close>

theorem isVideoFile_iff_witness:
  "isVideoFile ''clips/Holiday.MoV'' \<and> \<not> isVideoFile ''clips.mp4/notes.txt''"
proof -
  have "ToLower ''.MoV'' = ''.mov''" by code_simp
  then have "\<exists>stem e. ''clips/Holiday.MoV'' = stem @ e \<and>
      (ToLower e = ''.mp4'' \<or> ToLower e = ''.mov'')"
    by (intro exI[of _ "''clips/Holiday''"] exI[of _ "''.MoV''"]) simp
  then have "isVideoFile ''clips/Holiday.MoV''" by (simp only: isVideoFile_iff)
  moreover have "\<not> isVideoFile ''clips.mp4/notes.txt''" by code_simp
  ultimately show ?thesis by simp
qed

subsection \<open>The branches of \<^verbatim>\<open>processVideo\<close>\<close>

lemma processVideo_stages:
  "processVideo env filePath w0 =
     (let w2 = jobSetup env filePath w0;
          compressedFilePath = compressedFilePathOf filePath;
          w4 = afterSubprocess env filePath w0
      in case Stat w2 compressedFilePath of
           Inr _ \<Rightarrow> ((0, 0), logStatus (WarnAlreadyExists (snd (Split filePath))) w2)
         | Inl _ \<Rightarrow>
        (case Stat w2 filePath of
           Inl err \<Rightarrow> ((0, 0), logStatus (WarnOriginalSize err) w2)
         | Inr originalFileInfo \<Rightarrow>
           if pipe_fails env then ((Size originalFileInfo, 0), logStatus WarnOutputPipe w2)
           else if start_fails env then ((Size originalFileInfo, 0), logStatus WarnStartingFFmpeg w2)
           else if wait_fails env then ((Size originalFileInfo, 0), logStatus WarnWaiting w4)
           else
             (case Stat w4 compressedFilePath of
                Inl err \<Rightarrow> ((Size originalFileInfo, 0), logStatus (WarnCompressedSize err) w4)
              | Inr compressedFileInfo \<Rightarrow>
                  if Size originalFileInfo \<le>s Size compressedFileInfo then
                    ((Size originalFileInfo, Size originalFileInfo),
                     (if Size originalFileInfo <s Size compressedFileInfo then
                        logStatus (WarnLarger compressedFilePath filePath
                            (fdiv (fdiv (float64 (Size compressedFileInfo - Size originalFileInfo))
                               (Finite 1024)) (Finite 1024))
                            (fmul (fdiv (float64 (Size compressedFileInfo - Size originalFileInfo))
                               (float64 (Size originalFileInfo))) (Finite 100)))
                          (Remove env compressedFilePath w4)
                        else logStatus (WarnSameSize compressedFilePath filePath)
                       (Remove env compressedFilePath w4)))
                  else
                    ((Size originalFileInfo, Size compressedFileInfo),
                     logStatus
                       (Compressed filePath compressedFilePath
                          (fdiv (fdiv (float64 (Size originalFileInfo)) (Finite 1024)) (Finite 1024))
                          (fdiv (fdiv (float64 (Size compressedFileInfo)) (Finite 1024)) (Finite 1024))
                          (fmul (fdiv (float64 (Size originalFileInfo - Size compressedFileInfo))
                             (float64 (Size originalFileInfo))) (Finite 100)))
                       w4))))"
  unfolding processVideo_def jobSetup_def afterSubprocess_def compressedFilePathOf_def
      completedDirOf_def Let_def split_def
  by (rule refl)

lemma Stat_logStatus: "Stat (logStatus m w) name = Stat w name"
  by (simp add: Stat_def logStatus_def)

lemma statSize_None: "statSize w name = None \<longleftrightarrow> (\<exists>e. Stat w name = Inl e)"
  by (simp add: statSize_def split: sum.splits)

lemma statSize_Some:
  "statSize w name = Some n \<longleftrightarrow> (\<exists>info. Stat w name = Inr info \<and> Size info = n)"
  by (auto simp add: statSize_def split: sum.splits)

lemma processVideo_skip:
  assumes "Stat (jobSetup env filePath w) (compressedFilePathOf filePath) = Inr info"
  shows "processVideo env filePath w =
           ((0, 0), logStatus (WarnAlreadyExists (snd (Split filePath))) (jobSetup env filePath w))"
  using assms by (simp add: processVideo_stages Let_def)

lemma processVideo_no_original:
  assumes "Stat (jobSetup env filePath w) (compressedFilePathOf filePath) = Inl e"
    and "Stat (jobSetup env filePath w) filePath = Inl err"
  shows "processVideo env filePath w =
           ((0, 0), logStatus (WarnOriginalSize err) (jobSetup env filePath w))"
  using assms by (simp add: processVideo_stages Let_def)

lemma processVideo_pipe_fails:
  assumes "Stat (jobSetup env filePath w) (compressedFilePathOf filePath) = Inl e"
    and "Stat (jobSetup env filePath w) filePath = Inr info"
    and "pipe_fails env"
  shows "processVideo env filePath w =
           ((Size info, 0), logStatus WarnOutputPipe (jobSetup env filePath w))"
  using assms by (simp add: processVideo_stages Let_def)

lemma processVideo_start_fails:
  assumes "Stat (jobSetup env filePath w) (compressedFilePathOf filePath) = Inl e"
    and "Stat (jobSetup env filePath w) filePath = Inr info"
    and "\<not> pipe_fails env" and "start_fails env"
  shows "processVideo env filePath w =
           ((Size info, 0), logStatus WarnStartingFFmpeg (jobSetup env filePath w))"
  using assms by (simp add: processVideo_stages Let_def)

lemma processVideo_wait_fails:
  assumes "Stat (jobSetup env filePath w) (compressedFilePathOf filePath) = Inl e"
    and "Stat (jobSetup env filePath w) filePath = Inr info"
    and "\<not> pipe_fails env" and "\<not> start_fails env" and "wait_fails env"
  shows "processVideo env filePath w =
           ((Size info, 0), logStatus WarnWaiting (afterSubprocess env filePath w))"
  using assms by (simp add: processVideo_stages Let_def)

lemma processVideo_no_output:
  assumes "Stat (jobSetup env filePath w) (compressedFilePathOf filePath) = Inl e"
    and "Stat (jobSetup env filePath w) filePath = Inr info"
    and "\<not> pipe_fails env" and "\<not> start_fails env" and "\<not> wait_fails env"
    and "Stat (afterSubprocess env filePath w) (compressedFilePathOf filePath) = Inl err"
  shows "processVideo env filePath w =
           ((Size info, 0), logStatus (WarnCompressedSize err) (afterSubprocess env filePath w))"
  using assms by (simp add: processVideo_stages Let_def)

lemma processVideo_discard:
  assumes "runsToOutput env filePath w originalSize producedSize"
    and "originalSize \<le>s producedSize"
  shows "processVideo env filePath w =
           ((originalSize, originalSize),
            logStatus
              (if originalSize <s producedSize then
                 WarnLarger (compressedFilePathOf filePath) filePath
                   (fdiv (fdiv (float64 (producedSize - originalSize)) (Finite 1024)) (Finite 1024))
                   (fmul (fdiv (float64 (producedSize - originalSize)) (float64 originalSize))
                      (Finite 100))
               else WarnSameSize (compressedFilePathOf filePath) filePath)
              (Remove env (compressedFilePathOf filePath) (afterSubprocess env filePath w)))"
  using assms
  by (auto simp add: runsToOutput_def statSize_None statSize_Some processVideo_stages Let_def)

lemma processVideo_keep:
  assumes "runsToOutput env filePath w originalSize producedSize"
    and "\<not> originalSize \<le>s producedSize"
  shows "processVideo env filePath w =
           ((originalSize, producedSize),
            logStatus
              (Compressed filePath (compressedFilePathOf filePath)
                 (fdiv (fdiv (float64 originalSize) (Finite 1024)) (Finite 1024))
                 (fdiv (fdiv (float64 producedSize) (Finite 1024)) (Finite 1024))
                 (fmul (fdiv (float64 (originalSize - producedSize)) (float64 originalSize))
                    (Finite 100)))
              (afterSubprocess env filePath w))"
  using assms
  by (auto simp add: runsToOutput_def statSize_None statSize_Some processVideo_stages Let_def)

lemma logStatus_fields:
  "statusLog (logStatus m w) = statusLog w @ [m]"
  "disk (logStatus m w) = disk w"
  "ffmpegLog (logStatus m w) = ffmpegLog w"
  "started (logStatus m w) = started w"
  "stdout (logStatus m w) = stdout w"
  by (simp_all add: logStatus_def)

lemma outcome_logStatus: "outcome (r, logStatus m w) = decisionOf m"
  by (simp add: outcome_def logStatus_def)

lemma jobSetup_fields:
  "statusLog (jobSetup env filePath w) = statusLog w @ [InfoStarting filePath]"
  "ffmpegLog (jobSetup env filePath w) = ffmpegLog w"
  "started (jobSetup env filePath w) = started w"
  by (simp_all add: jobSetup_def Let_def Mkdir_def logStatus_def split: sum.splits)

lemma jobSetup_disk_other:
  "name \<noteq> completedDirOf filePath \<Longrightarrow> disk (jobSetup env filePath w) name = disk w name"
  by (simp add: jobSetup_def Let_def Mkdir_def logStatus_def split: sum.splits)

lemma jobSetup_disk_same:
  "Stat w (completedDirOf filePath) \<noteq> Inl ENOENT \<Longrightarrow> disk (jobSetup env filePath w) = disk w"
  by (auto simp add: jobSetup_def Let_def Mkdir_def logStatus_def Stat_def split: sum.splits)

lemma jobSetup_keeps_existing:
  assumes "Stat w name = Inr info"
  shows "\<exists>info'. Stat (jobSetup env filePath w) name = Inr info'"
  using assms
  by (cases "name = completedDirOf filePath")
     (auto simp add: jobSetup_def Let_def Mkdir_def logStatus_def Stat_def split: sum.splits)

text \<open>
  C7. When the output path exists before the job starts, \<^verbatim>\<open>processVideo\<close> returns \<open>(0, 0)\<close> with
  the "already exists" warning: no subprocess is started, nothing reaches the FFmpeg log, no
  entry of the disk changes except that a missing marker directory may have been created (none
  changes when the marker directory is not missing), and the running totals stay as they were.
\<close>

theorem skip_when_output_exists:
  assumes "Stat w (compressedFilePathOf filePath) = Inr info"
  shows "fst (processVideo (env filePath) filePath w) = (0, 0) \<and>
         outcome (processVideo (env filePath) filePath w) = Some SkippedAlreadyExists \<and>
         statusLog (snd (processVideo (env filePath) filePath w)) =
           statusLog w @ [InfoStarting filePath, WarnAlreadyExists (snd (Split filePath))] \<and>
         started (snd (processVideo (env filePath) filePath w)) = started w \<and>
         ffmpegLog (snd (processVideo (env filePath) filePath w)) = ffmpegLog w \<and>
         (\<forall>name. name \<noteq> completedDirOf filePath \<longrightarrow>
            disk (snd (processVideo (env filePath) filePath w)) name = disk w name) \<and>
         (Stat w (completedDirOf filePath) \<noteq> Inl ENOENT \<longrightarrow>
            disk (snd (processVideo (env filePath) filePath w)) = disk w) \<and>
         processVideos_loop env (filePath # rest) (totalOriginalSize, totalCompressedSize) w =
           processVideos_loop env rest (totalOriginalSize, totalCompressedSize)
             (snd (processVideo (env filePath) filePath w))"
proof -
  from jobSetup_keeps_existing[OF assms] obtain info' where
    "Stat (jobSetup (env filePath) filePath w) (compressedFilePathOf filePath) = Inr info'"
    by blast
  then have r: "processVideo (env filePath) filePath w =
      ((0, 0), logStatus (WarnAlreadyExists (snd (Split filePath)))
                 (jobSetup (env filePath) filePath w))"
    by (rule processVideo_skip)
  show ?thesis
    by (simp add: r outcome_logStatus logStatus_fields jobSetup_fields jobSetup_disk_other
        jobSetup_disk_same)
qed

text \<open>An instance: the output of an earlier run is in the marker directory.\<close>

theorem skip_when_output_exists_witness:
  "Stat (worldOf [(''a.mp4'', regular 100), (''Completed'', directory),
                  (''Completed/a.mp4'', regular 60)]) (compressedFilePathOf ''a.mp4'') =
     Inr (regular 60) \<and>
   fst (processVideo (okJob (Some 50)) ''a.mp4''
          (worldOf [(''a.mp4'', regular 100), (''Completed'', directory),
                    (''Completed/a.mp4'', regular 60)])) = (0, 0) \<and>
   started (snd (processVideo (okJob (Some 50)) ''a.mp4''
          (worldOf [(''a.mp4'', regular 100), (''Completed'', directory),
                    (''Completed/a.mp4'', regular 60)]))) = [] \<and>
   disk (snd (processVideo (okJob (Some 50)) ''a.mp4''
          (worldOf [(''a.mp4'', regular 100), (''Completed'', directory),
                    (''Completed/a.mp4'', regular 60)]))) =
     disk (worldOf [(''a.mp4'', regular 100), (''Completed'', directory),
                    (''Completed/a.mp4'', regular 60)])"
proof -
  let ?w = "worldOf [(''a.mp4'', regular 100), (''Completed'', directory),
                     (''Completed/a.mp4'', regular 60)]"
  have h: "Stat ?w (compressedFilePathOf ''a.mp4'') = Inr (regular 60)" by code_simp
  have d: "Stat ?w (completedDirOf ''a.mp4'') \<noteq> Inl ENOENT" by code_simp
  have s: "started ?w = []" by (simp add: worldOf_def)
  from skip_when_output_exists[OF h, of "\<lambda>_. okJob (Some 50)" "[]" 0 0] h d s
  show ?thesis by simp
qed

text \<open>
  C8. A job that passes the output path check and measures the original, and then fails to
  create the pipe, to start the subprocess, sees the subprocess fail, or cannot measure the
  output, returns the original size and zero.
\<close>

theorem failed_job_returns_original_and_zero:
  assumes "statSize (jobSetup env filePath w) (compressedFilePathOf filePath) = None"
    and "statSize (jobSetup env filePath w) filePath = Some originalSize"
    and "pipe_fails env \<or> start_fails env \<or> wait_fails env \<or>
         statSize (afterSubprocess env filePath w) (compressedFilePathOf filePath) = None"
  shows "fst (processVideo env filePath w) = (originalSize, 0) \<and>
         outcome (processVideo env filePath w) = Some Failed"
proof -
  from assms(1) obtain e where
    e: "Stat (jobSetup env filePath w) (compressedFilePathOf filePath) = Inl e"
    by (auto simp: statSize_None)
  from assms(2) obtain info where
    i: "Stat (jobSetup env filePath w) filePath = Inr info" and s: "Size info = originalSize"
    by (auto simp: statSize_Some)
  consider (pipe) "pipe_fails env"
    | (start) "\<not> pipe_fails env" "start_fails env"
    | (wait) "\<not> pipe_fails env" "\<not> start_fails env" "wait_fails env"
    | (out) "\<not> pipe_fails env" "\<not> start_fails env" "\<not> wait_fails env"
        "statSize (afterSubprocess env filePath w) (compressedFilePathOf filePath) = None"
    using assms(3) by auto
  then show ?thesis
  proof cases
    case pipe
    from processVideo_pipe_fails[OF e i pipe] s show ?thesis
      by (simp add: outcome_logStatus)
  next
    case start
    from processVideo_start_fails[OF e i start] s show ?thesis
      by (simp add: outcome_logStatus)
  next
    case wait
    from processVideo_wait_fails[OF e i wait] s show ?thesis
      by (simp add: outcome_logStatus)
  next
    case out
    from out(4) obtain err where
      "Stat (afterSubprocess env filePath w) (compressedFilePathOf filePath) = Inl err"
      by (auto simp: statSize_None)
    from processVideo_no_output[OF e i out(1-3) this] s show ?thesis
      by (simp add: outcome_logStatus)
  qed
qed

text \<open>An instance: the subprocess cannot be started.\<close>

theorem failed_job_returns_original_and_zero_witness:
  "statSize (jobSetup ((okJob None)\<lparr>start_fails := True\<rparr>) ''a.mp4''
               (worldOf [(''a.mp4'', regular 100)])) (compressedFilePathOf ''a.mp4'') = None \<and>
   statSize (jobSetup ((okJob None)\<lparr>start_fails := True\<rparr>) ''a.mp4''
               (worldOf [(''a.mp4'', regular 100)])) ''a.mp4'' = Some 100 \<and>
   start_fails ((okJob None)\<lparr>start_fails := True\<rparr>) \<and>
   fst (processVideo ((okJob None)\<lparr>start_fails := True\<rparr>) ''a.mp4''
          (worldOf [(''a.mp4'', regular 100)])) = (100, 0)"
proof -
  let ?env = "(okJob None)\<lparr>start_fails := True\<rparr>"
  let ?w = "worldOf [(''a.mp4'', regular 100)]"
  have h1: "statSize (jobSetup ?env ''a.mp4'' ?w) (compressedFilePathOf ''a.mp4'') = None"
    by code_simp
  have h2: "statSize (jobSetup ?env ''a.mp4'' ?w) ''a.mp4'' = Some 100" by code_simp
  have h3: "start_fails ?env" by simp
  from failed_job_returns_original_and_zero[OF h1 h2 disjI2[OF disjI1[OF h3]]] h1 h2 h3
  show ?thesis by simp
qed

lemma processVideos_loop_totals:
  "fst (processVideos_loop env videoFiles (totalOriginalSize, totalCompressedSize) w) =
     (totalOriginalSize + sum_list (map fst (jobResults env videoFiles w)),
      totalCompressedSize + sum_list (map snd (jobResults env videoFiles w)))"
  by (induction videoFiles arbitrary: totalOriginalSize totalCompressedSize w)
     (simp_all add: split_def Let_def add.assoc)

text \<open>
  C6. A job whose output is not smaller than the original returns the original size twice. The
  loop adds that size to the running total of original sizes and to the running total of kept
  sizes: after the job alone the totals are the earlier ones plus the original size on both
  sides, and at the end of the batch they are the earlier ones plus the original size plus what
  the remaining jobs return. The space saved, the difference of the totals, is therefore what
  it would be without the discarded file.
\<close>

theorem discarded_counts_original_on_both_sides:
  assumes "runsToOutput (env filePath) filePath w originalSize producedSize"
    and "originalSize \<le>s producedSize"
  shows "fst (processVideo (env filePath) filePath w) = (originalSize, originalSize) \<and>
         fst (processVideos_loop env [filePath] (totalOriginalSize, totalCompressedSize) w) =
           (totalOriginalSize + originalSize, totalCompressedSize + originalSize) \<and>
         fst (processVideos_loop env (filePath # rest) (totalOriginalSize, totalCompressedSize) w) =
           (totalOriginalSize + originalSize +
              sum_list (map fst (jobResults env rest (snd (processVideo (env filePath) filePath w)))),
            totalCompressedSize + originalSize +
              sum_list (map snd (jobResults env rest (snd (processVideo (env filePath) filePath w))))) \<and>
         processVideos_loop env (filePath # rest) (totalOriginalSize, totalCompressedSize) w =
           processVideos_loop env rest
             (totalOriginalSize + originalSize, totalCompressedSize + originalSize)
             (snd (processVideo (env filePath) filePath w)) \<and>
         fst (fst (processVideos_loop env (filePath # rest)
                     (totalOriginalSize, totalCompressedSize) w)) -
         snd (fst (processVideos_loop env (filePath # rest)
                     (totalOriginalSize, totalCompressedSize) w)) =
           (totalOriginalSize +
              sum_list (map fst (jobResults env rest (snd (processVideo (env filePath) filePath w))))) -
           (totalCompressedSize +
              sum_list (map snd (jobResults env rest (snd (processVideo (env filePath) filePath w))))) \<and>
         (totalOriginalSize + originalSize) - (totalCompressedSize + originalSize) =
           totalOriginalSize - totalCompressedSize"
proof -
  let ?w' = "snd (processVideo (env filePath) filePath w)"
  have fst1: "fst (processVideo (env filePath) filePath w) = (originalSize, originalSize)"
    by (simp add: processVideo_discard[OF assms])
  have step: "processVideos_loop env (filePath # rest) (totalOriginalSize, totalCompressedSize) w =
      processVideos_loop env rest
        (totalOriginalSize + originalSize, totalCompressedSize + originalSize) ?w'" for rest
    by (simp add: processVideo_discard[OF assms])
  have one: "fst (processVideos_loop env [filePath] (totalOriginalSize, totalCompressedSize) w) =
      (totalOriginalSize + originalSize, totalCompressedSize + originalSize)"
    by (subst step) simp
  have many: "fst (processVideos_loop env (filePath # rest)
        (totalOriginalSize, totalCompressedSize) w) =
      (totalOriginalSize + originalSize + sum_list (map fst (jobResults env rest ?w')),
       totalCompressedSize + originalSize + sum_list (map snd (jobResults env rest ?w')))"
    by (simp only: step processVideos_loop_totals)
  have diff: "fst (fst (processVideos_loop env (filePath # rest)
                     (totalOriginalSize, totalCompressedSize) w)) -
         snd (fst (processVideos_loop env (filePath # rest)
                     (totalOriginalSize, totalCompressedSize) w)) =
           (totalOriginalSize + sum_list (map fst (jobResults env rest ?w'))) -
           (totalCompressedSize + sum_list (map snd (jobResults env rest ?w')))"
    by (simp only: many fst_conv snd_conv) simp
  have ring: "(totalOriginalSize + originalSize) - (totalCompressedSize + originalSize) =
      totalOriginalSize - totalCompressedSize"
    by simp
  show ?thesis
    by (intro conjI) (fact fst1, fact one, fact many, fact step, fact diff, fact ring)
qed

text \<open>
  An instance: an original of 100 bytes and an output of 110 bytes, with running totals of 7
  and 3 before the job, and as the only file of a batch.
\<close>

theorem discarded_counts_original_on_both_sides_witness:
  "runsToOutput (okJob (Some 110)) ''a.mp4'' (worldOf [(''a.mp4'', regular 100)]) 100 110 \<and>
   (100 :: int64) \<le>s 110 \<and>
   fst (processVideo (okJob (Some 110)) ''a.mp4'' (worldOf [(''a.mp4'', regular 100)])) =
     (100, 100) \<and>
   fst (processVideos_loop (\<lambda>_. okJob (Some 110)) [''a.mp4''] (7, 3)
          (worldOf [(''a.mp4'', regular 100)])) = (107, 103) \<and>
   fst (processVideos (\<lambda>_. okJob (Some 110)) [''a.mp4'']
          (worldOf [(''a.mp4'', regular 100)])) = (100, 100)"
proof -
  have h1: "runsToOutput ((\<lambda>_. okJob (Some 110)) ''a.mp4'') ''a.mp4''
              (worldOf [(''a.mp4'', regular 100)]) 100 110"
    by code_simp
  have h2: "(100 :: int64) \<le>s 110" by code_simp
  from discarded_counts_original_on_both_sides[OF h1 h2, of 7 3 "[]"] discarded_counts_original_on_both_sides[OF h1 h2, of 0 0 "[]"] h1 h2
  show ?thesis by (simp add: processVideos_def)
qed

lemma Stat_Remove:
  "\<not> remove_fails env \<Longrightarrow> Stat (Remove env name w) name = Inl ENOENT"
  by (simp add: Stat_def Remove_def)

text \<open>
  C3, as amended. For a job that runs to a measurable output, the output is kept exactly when
  it is smaller than the original, and discarded otherwise, with separate outcomes for a larger
  and for an equal size. A kept output stays on the disk. A discarded output is gone after the
  job provided that \<^verbatim>\<open>os.Remove\<close> succeeds; the program ignores the result of that call.
\<close>

theorem keep_iff_smaller:
  assumes "runsToOutput env filePath w originalSize producedSize"
  shows "(outcome (processVideo env filePath w) = Some Kept \<longleftrightarrow> producedSize <s originalSize) \<and>
         (outcome (processVideo env filePath w) = Some DiscardedLarger \<longleftrightarrow>
            originalSize <s producedSize) \<and>
         (outcome (processVideo env filePath w) = Some DiscardedEqual \<longleftrightarrow>
            producedSize = originalSize) \<and>
         (outcome (processVideo env filePath w) = Some DiscardedLarger \<or>
          outcome (processVideo env filePath w) = Some DiscardedEqual \<longleftrightarrow>
            originalSize \<le>s producedSize) \<and>
         (producedSize <s originalSize \<longrightarrow>
            statSize (snd (processVideo env filePath w)) (compressedFilePathOf filePath) =
              Some producedSize) \<and>
         (originalSize \<le>s producedSize \<and> \<not> remove_fails env \<longrightarrow>
            Stat (snd (processVideo env filePath w)) (compressedFilePathOf filePath) = Inl ENOENT)"
proof (cases "originalSize \<le>s producedSize")
  case True
  from processVideo_discard[OF assms True] True show ?thesis
    by (auto simp add: outcome_logStatus Stat_logStatus Stat_Remove)
next
  case False
  from assms have "statSize (afterSubprocess env filePath w) (compressedFilePathOf filePath) =
      Some producedSize"
    by (simp add: runsToOutput_def)
  with processVideo_keep[OF assms False] False show ?thesis
    by (auto simp add: outcome_logStatus statSize_def Stat_logStatus)
qed

text \<open>An instance of each kind: an output of 60 bytes is kept, one of 110 bytes is removed.\<close>

theorem keep_iff_smaller_witness:
  "runsToOutput (okJob (Some 60)) ''a.mp4'' (worldOf [(''a.mp4'', regular 100)]) 100 60 \<and>
   (60 :: int64) <s 100 \<and>
   outcome (processVideo (okJob (Some 60)) ''a.mp4'' (worldOf [(''a.mp4'', regular 100)])) =
     Some Kept \<and>
   statSize (snd (processVideo (okJob (Some 60)) ''a.mp4'' (worldOf [(''a.mp4'', regular 100)])))
     (compressedFilePathOf ''a.mp4'') = Some 60 \<and>
   runsToOutput (okJob (Some 110)) ''a.mp4'' (worldOf [(''a.mp4'', regular 100)]) 100 110 \<and>
   (100 :: int64) \<le>s 110 \<and> \<not> remove_fails (okJob (Some 110)) \<and>
   Stat (snd (processVideo (okJob (Some 110)) ''a.mp4'' (worldOf [(''a.mp4'', regular 100)])))
     (compressedFilePathOf ''a.mp4'') = Inl ENOENT"
proof -
  let ?w = "worldOf [(''a.mp4'', regular 100)]"
  have k: "runsToOutput (okJob (Some 60)) ''a.mp4'' ?w 100 60" by code_simp
  have k': "(60 :: int64) <s 100" by code_simp
  have d: "runsToOutput (okJob (Some 110)) ''a.mp4'' ?w 100 110" by code_simp
  have d': "(100 :: int64) \<le>s 110" by code_simp
  have r: "\<not> remove_fails (okJob (Some 110))" by (simp add: okJob_def)
  from keep_iff_smaller[OF k] keep_iff_smaller[OF d] k k' d d' r
  show ?thesis by simp
qed

text \<open>
  C3, as stated, fails where \<^verbatim>\<open>os.Remove\<close> fails: the job below compares an output of the
  same size as the original, decides to discard it, and the output is still on the disk when
  the job is over.
\<close>

theorem discard_leaves_artifact_counterexample:
  "runsToOutput ((okJob (Some 100))\<lparr>remove_fails := True\<rparr>) ''a.mp4''
     (worldOf [(''a.mp4'', regular 100)]) 100 100 \<and>
   outcome (processVideo ((okJob (Some 100))\<lparr>remove_fails := True\<rparr>) ''a.mp4''
              (worldOf [(''a.mp4'', regular 100)])) = Some DiscardedEqual \<and>
   Stat (snd (processVideo ((okJob (Some 100))\<lparr>remove_fails := True\<rparr>) ''a.mp4''
                (worldOf [(''a.mp4'', regular 100)]))) (compressedFilePathOf ''a.mp4'') =
     Inr (regular 100)"
  by code_simp

subsection \<open>The totals of a batch\<close>

lemma sint_int64_of_int:
  assumes "- (2 ^ 63) \<le> k" "k < 2 ^ 63"
  shows "sint (word_of_int k :: int64) = k"
  using assms by (simp add: sint_sbintrunc' signed_take_bit_int_eq_self)

lemma sum_list_int64: "(sum_list xs :: int64) = word_of_int (\<Sum>x\<leftarrow>xs. sint x)"
  by (induction xs) simp_all

lemma sint_sum_list_int64:
  assumes "\<forall>x \<in> set xs. 0 \<le> sint x" and "(\<Sum>x\<leftarrow>xs. sint x) < 2 ^ 63"
  shows "sint (sum_list xs :: int64) = (\<Sum>x\<leftarrow>xs. sint x)"
proof -
  from assms(1) have "0 \<le> (\<Sum>x\<leftarrow>xs. sint x)"
    by (induction xs) auto
  with assms(2) show ?thesis
    by (simp add: sum_list_int64[of xs] sint_int64_of_int)
qed

lemma sizesNonNegative_Stat:
  "sizesNonNegative w \<Longrightarrow> Stat w name = Inr info \<Longrightarrow> 0 \<le>s Size info"
  by (auto simp add: sizesNonNegative_def Stat_def split: sum.splits dest!: spec[of _ name])

lemma sizesNonNegative_logStatus:
  "sizesNonNegative (logStatus m w) = sizesNonNegative w"
  by (simp add: sizesNonNegative_def logStatus_def)

lemma sizesNonNegative_Remove:
  "sizesNonNegative w \<Longrightarrow> sizesNonNegative (Remove env name w)"
  by (simp add: sizesNonNegative_def Remove_def)

lemma sizesNonNegative_jobSetup:
  "sizesNonNegative w \<Longrightarrow> jobNonNegative env \<Longrightarrow> sizesNonNegative (jobSetup env filePath w)"
  by (simp add: sizesNonNegative_def jobSetup_def Let_def Mkdir_def logStatus_def
      jobNonNegative_def split: sum.splits)

lemma sizesNonNegative_afterSubprocess:
  "sizesNonNegative w \<Longrightarrow> jobNonNegative env \<Longrightarrow>
   sizesNonNegative (afterSubprocess env filePath w)"
  using sizesNonNegative_jobSetup[of w env filePath]
  by (auto simp add: sizesNonNegative_def afterSubprocess_def runSubprocess_def Let_def
      logStatus_def jobNonNegative_def split: option.splits)

lemma processVideo_kept_le_original:
  assumes "sizesNonNegative w" and "jobNonNegative env"
  shows "0 \<le>s snd (fst (processVideo env filePath w)) \<and>
         snd (fst (processVideo env filePath w)) \<le>s fst (fst (processVideo env filePath w)) \<and>
         sizesNonNegative (snd (processVideo env filePath w))"
proof -
  note s2 = sizesNonNegative_jobSetup[OF assms, of filePath]
  note s4 = sizesNonNegative_afterSubprocess[OF assms, of filePath]
  show ?thesis
    using sizesNonNegative_Stat[OF s2] sizesNonNegative_Stat[OF s4] s2 s4
    by (auto simp add: processVideo_stages Let_def sizesNonNegative_logStatus
        sizesNonNegative_Remove split: sum.splits)
qed

lemma jobResults_kept_le_original:
  assumes "sizesNonNegative w" and "\<forall>filePath. jobNonNegative (env filePath)"
  shows "\<forall>r \<in> set (jobResults env videoFiles w). 0 \<le>s snd r \<and> snd r \<le>s fst r"
  using assms(1)
proof (induction videoFiles arbitrary: w)
  case Nil
  then show ?case by simp
next
  case (Cons filePath rest)
  from assms(2) have "jobNonNegative (env filePath)" by simp
  from processVideo_kept_le_original[OF Cons.prems this, of filePath] Cons.IH
  show ?case by (auto simp add: split_def Let_def)
qed

lemma sum_list_sint_mono:
  assumes "\<forall>r \<in> set rs. sint (snd r) \<le> sint (fst r)"
  shows "(\<Sum>x\<leftarrow>map snd rs. sint x) \<le> (\<Sum>x\<leftarrow>map fst rs. sint (x :: int64))"
  using assms by (induction rs) (auto simp: add_mono)

text \<open>
  C10, as amended. When every size on the disk and every size that a subprocess writes is
  non-negative, each job returns a kept size between zero and its original size. When moreover
  the original sizes that the jobs return add up to less than \<open>2 ^ 63\<close>, so that the \<^verbatim>\<open>int64\<close>
  totals do not wrap around, the total kept size is at most the total original size and the
  space saved is not negative.
\<close>

theorem kept_total_within_original_total:
  assumes "sizesNonNegative w" and "\<forall>filePath. jobNonNegative (env filePath)"
    and "(\<Sum>r\<leftarrow>jobResults env videoFiles w. sint (fst r)) < 2 ^ 63"
  shows "(\<forall>r \<in> set (jobResults env videoFiles w). 0 \<le>s snd r \<and> snd r \<le>s fst r) \<and>
         snd (fst (processVideos env videoFiles w)) \<le>s fst (fst (processVideos env videoFiles w)) \<and>
         0 \<le>s fst (fst (processVideos env videoFiles w)) - snd (fst (processVideos env videoFiles w))"
proof -
  let ?rs = "jobResults env videoFiles w"
  let ?O = "\<Sum>x\<leftarrow>map fst ?rs. sint x" and ?C = "\<Sum>x\<leftarrow>map snd ?rs. sint x"
  have b: "\<forall>r \<in> set ?rs. 0 \<le>s snd r \<and> snd r \<le>s fst r"
    by (rule jobResults_kept_le_original[OF assms(1,2)])
  then have b': "\<forall>r \<in> set ?rs. 0 \<le> sint (snd r) \<and> sint (snd r) \<le> sint (fst r)"
    by (simp add: word_sle_eq)
  have O: "?O < 2 ^ 63" using assms(3) by (simp add: comp_def)
  have CO: "?C \<le> ?O" by (rule sum_list_sint_mono) (use b' in blast)
  have C0: "0 \<le> ?C" by (rule sum_list_nonneg) (use b' in auto)
  have sO: "sint (sum_list (map fst ?rs)) = ?O"
    by (rule sint_sum_list_int64) (use b' O in auto)
  have sC: "sint (sum_list (map snd ?rs)) = ?C"
    by (rule sint_sum_list_int64) (use b' O CO in auto)
  have t: "fst (processVideos env videoFiles w) = (sum_list (map fst ?rs), sum_list (map snd ?rs))"
    by (simp add: processVideos_def processVideos_loop_totals)
  have d: "sint (sum_list (map fst ?rs) - sum_list (map snd ?rs)) = ?O - ?C"
  proof -
    have "sum_list (map fst ?rs) - sum_list (map snd ?rs) = (word_of_int (?O - ?C) :: int64)"
      by (simp add: sum_list_int64[of "map fst ?rs"] sum_list_int64[of "map snd ?rs"] comp_def)
    moreover have "- (2 ^ 63) \<le> ?O - ?C" "?O - ?C < 2 ^ 63" using O CO C0 by auto
    ultimately show ?thesis by (simp only: sint_int64_of_int)
  qed
  show ?thesis using b sO sC CO d by (simp add: t word_sle_eq)
qed

text \<open>An instance: two files that are compressed and one that has vanished since the walk.\<close>

theorem kept_total_within_original_total_witness:
  "sizesNonNegative (worldOf [(''a.mp4'', regular 100), (''b.mov'', regular 80)]) \<and>
   jobNonNegative (okJob (Some 60)) \<and>
   (\<Sum>r\<leftarrow>jobResults (\<lambda>_. okJob (Some 60)) [''a.mp4'', ''b.mov'', ''c.mp4'']
         (worldOf [(''a.mp4'', regular 100), (''b.mov'', regular 80)]). sint (fst r)) < 2 ^ 63 \<and>
   fst (processVideos (\<lambda>_. okJob (Some 60)) [''a.mp4'', ''b.mov'', ''c.mp4'']
          (worldOf [(''a.mp4'', regular 100), (''b.mov'', regular 80)])) = (180, 120) \<and>
   snd (fst (processVideos (\<lambda>_. okJob (Some 60)) [''a.mp4'', ''b.mov'', ''c.mp4'']
          (worldOf [(''a.mp4'', regular 100), (''b.mov'', regular 80)])))
   \<le>s fst (fst (processVideos (\<lambda>_. okJob (Some 60)) [''a.mp4'', ''b.mov'', ''c.mp4'']
          (worldOf [(''a.mp4'', regular 100), (''b.mov'', regular 80)])))"
proof -
  let ?w = "worldOf [(''a.mp4'', regular 100), (''b.mov'', regular 80)]"
  let ?env = "\<lambda>_ :: string. okJob (Some 60)"
  let ?fs = "[''a.mp4'', ''b.mov'', ''c.mp4'']"
  have h1: "sizesNonNegative ?w"
    by (simp add: sizesNonNegative_def worldOf_def diskOf_def regular_def word_sle_eq)
  have j: "jobNonNegative (okJob (Some 60))" by (simp add: jobNonNegative_def okJob_def word_sle_eq)
  then have h2: "\<forall>filePath. jobNonNegative (?env filePath)" by simp
  have rs: "jobResults ?env ?fs ?w = [(100, 60), (80, 60), (0, 0)]" by code_simp
  have h3: "(\<Sum>r\<leftarrow>jobResults ?env ?fs ?w. sint (fst r)) < 2 ^ 63" unfolding rs by simp
  have t: "fst (processVideos ?env ?fs ?w) = (180, 120)" by code_simp
  from kept_total_within_original_total[OF h1 h2 h3] h1 j h3 t show ?thesis by simp
qed

text \<open>
  C10, as stated, fails where the total of the original sizes wraps around: three originals of
  \<open>2 ^ 62\<close> bytes, each compressed to one byte. Every job returns a kept size below its
  original size, yet the total original size is negative, below the total kept size of 3, and
  the space saved is negative.
\<close>

theorem kept_total_wraps_counterexample:
  "jobResults (\<lambda>_. okJob (Some 1)) [''a.mp4'', ''b.mp4'', ''c.mp4'']
     (worldOf [(''a.mp4'', regular 4611686018427387904), (''b.mp4'', regular 4611686018427387904),
               (''c.mp4'', regular 4611686018427387904)]) =
     [(4611686018427387904, 1), (4611686018427387904, 1), (4611686018427387904, 1)] \<and>
   \<not> snd (fst (processVideos (\<lambda>_. okJob (Some 1)) [''a.mp4'', ''b.mp4'', ''c.mp4'']
          (worldOf [(''a.mp4'', regular 4611686018427387904),
                    (''b.mp4'', regular 4611686018427387904),
                    (''c.mp4'', regular 4611686018427387904)])))
     \<le>s fst (fst (processVideos (\<lambda>_. okJob (Some 1)) [''a.mp4'', ''b.mp4'', ''c.mp4'']
          (worldOf [(''a.mp4'', regular 4611686018427387904),
                    (''b.mp4'', regular 4611686018427387904),
                    (''c.mp4'', regular 4611686018427387904)]))) \<and>
   fst (fst (processVideos (\<lambda>_. okJob (Some 1)) [''a.mp4'', ''b.mp4'', ''c.mp4'']
          (worldOf [(''a.mp4'', regular 4611686018427387904),
                    (''b.mp4'', regular 4611686018427387904),
                    (''c.mp4'', regular 4611686018427387904)])))
   - snd (fst (processVideos (\<lambda>_. okJob (Some 1)) [''a.mp4'', ''b.mp4'', ''c.mp4'']
          (worldOf [(''a.mp4'', regular 4611686018427387904),
                    (''b.mp4'', regular 4611686018427387904),
                    (''c.mp4'', regular 4611686018427387904)]))) <s 0"
  by code_simp

subsection \<open>Where the program departs from its description\<close>

text \<open>
  C1. A job that fails after the original has been measured returns the original size and
  zero, and the loop adds the pair to the totals like any other. In the run below the only
  file is one mebibyte, the subprocess cannot be started, nothing is compressed, and the
  summary reports one megabyte saved, 100 percent.
\<close>

theorem failed_job_counted_as_saved:
  "map_option statusLog
     (main True (Dir [(''a.mp4'', File)]) (\<lambda>_. (okJob None)\<lparr>start_fails := True\<rparr>)
        (worldOf [(''a.mp4'', regular 1048576)])) =
   Some [InfoFound 1 0, InfoStarting ''a.mp4'', WarnStartingFFmpeg,
         Separator, TotalSaved (Finite 1) (Finite 100), Separator]"
  by code_simp

text \<open>
  C2. No percentage is guarded against a zero denominator. With no video file the totals are
  both zero and the summary's percentage is not a number; an empty original with a non-empty
  output gives an infinite percentage in the warning.
\<close>

theorem percentage_of_empty_batch_is_NaN:
  "map_option statusLog (main True (Dir []) (\<lambda>_. okJob None) (worldOf [])) =
     Some [InfoFound 0 0, Separator, TotalSaved (Finite 0) NaN, Separator] \<and>
   statusLog (snd (processVideo (okJob (Some 1048576)) ''a.mp4'' (worldOf [(''a.mp4'', regular 0)]))) =
     [InfoStarting ''a.mp4'', WarnLarger ''Completed/a.mp4'' ''a.mp4'' (Finite 1) PosInf]"
  by code_simp

text \<open>
  C4. \<^verbatim>\<open>findVideoFiles\<close> never calls \<^verbatim>\<open>isCompressedFile\<close>: a video in a marker directory is
  classified as already processed and is listed all the same.
\<close>

theorem completed_directory_is_enumerated:
  "isCompressedFile ''Completed/a.mp4'' \<and>
   fst (findVideoFiles (Dir [(''Completed'', Dir [(''a.mp4'', File)]), (''a.mp4'', File)])
          (worldOf [])) = ([''Completed/a.mp4'', ''a.mp4''], 1)"
  by code_simp

text \<open>
  C5. The result of \<^verbatim>\<open>os.Mkdir\<close> is dropped. When the marker directory cannot be created the
  subprocess has nowhere to write and fails; the status log is the same as when the directory
  was created and the subprocess failed for another reason, and nothing is printed.
\<close>

theorem mkdir_failure_is_not_reported:
  "statusLog (snd (processVideo ((okJob None)\<lparr>mkdir_fails := True, wait_fails := True\<rparr>) ''a.mp4''
                     (worldOf [(''a.mp4'', regular 100)]))) =
     [InfoStarting ''a.mp4'', WarnWaiting] \<and>
   statusLog (snd (processVideo ((okJob None)\<lparr>mkdir_fails := False, wait_fails := True\<rparr>) ''a.mp4''
                     (worldOf [(''a.mp4'', regular 100)]))) =
     [InfoStarting ''a.mp4'', WarnWaiting] \<and>
   Stat (snd (processVideo ((okJob None)\<lparr>mkdir_fails := True, wait_fails := True\<rparr>) ''a.mp4''
                (worldOf [(''a.mp4'', regular 100)]))) ''Completed'' = Inl ENOENT \<and>
   stdout (snd (processVideo ((okJob None)\<lparr>mkdir_fails := True, wait_fails := True\<rparr>) ''a.mp4''
                  (worldOf [(''a.mp4'', regular 100)]))) = []"
  by code_simp

text \<open>
  The other failures of a job each end it with a message of their own, and a failure of the
  scanner is logged whatever the job does afterwards.
\<close>

lemma statusLog_Remove: "statusLog (Remove env name w) = statusLog w"
  by (simp add: Remove_def)

lemma job_failures_are_logged:
  assumes "Stat (jobSetup env filePath w) (compressedFilePathOf filePath) = Inl e"
    and "Stat (jobSetup env filePath w) filePath = Inr info"
  shows "pipe_fails env \<Longrightarrow>
           last (statusLog (snd (processVideo env filePath w))) = WarnOutputPipe"
    and "\<not> pipe_fails env \<Longrightarrow> start_fails env \<Longrightarrow>
           last (statusLog (snd (processVideo env filePath w))) = WarnStartingFFmpeg"
    and "\<not> pipe_fails env \<Longrightarrow> \<not> start_fails env \<Longrightarrow> wait_fails env \<Longrightarrow>
           last (statusLog (snd (processVideo env filePath w))) = WarnWaiting"
    and "\<not> pipe_fails env \<Longrightarrow> \<not> start_fails env \<Longrightarrow> scan_fails env \<Longrightarrow>
           WarnReadingOutput \<in> set (statusLog (snd (processVideo env filePath w)))"
proof -
  show "pipe_fails env \<Longrightarrow>
      last (statusLog (snd (processVideo env filePath w))) = WarnOutputPipe"
    by (simp add: processVideo_pipe_fails[OF assms] logStatus_fields)
  show "\<not> pipe_fails env \<Longrightarrow> start_fails env \<Longrightarrow>
      last (statusLog (snd (processVideo env filePath w))) = WarnStartingFFmpeg"
    by (simp add: processVideo_start_fails[OF assms] logStatus_fields)
  show "\<not> pipe_fails env \<Longrightarrow> \<not> start_fails env \<Longrightarrow> wait_fails env \<Longrightarrow>
      last (statusLog (snd (processVideo env filePath w))) = WarnWaiting"
    by (simp add: processVideo_wait_fails[OF assms] logStatus_fields)
  show "WarnReadingOutput \<in> set (statusLog (snd (processVideo env filePath w)))"
    if "\<not> pipe_fails env" "\<not> start_fails env" "scan_fails env"
  proof -
    have "WarnReadingOutput \<in> set (statusLog (afterSubprocess env filePath w))"
      using that(3) by (simp add: afterSubprocess_def Let_def logStatus_fields)
    with assms that(1,2) show ?thesis
      by (simp add: processVideo_stages Let_def logStatus_fields statusLog_Remove
          split: sum.splits)
  qed
qed

end
